theory Spec2Isabelle
  imports Main "HOL-Library.AList" "HOL-Library.Sublist"
begin

section \<open>Python values, exceptions and observable effects\<close>

text \<open>
  The value that \<^verbatim>\<open>response.json()\<close> hands to the two fetch functions is a tree of
  Python objects: \<^verbatim>\<open>None\<close>, \<^verbatim>\<open>bool\<close>, \<^verbatim>\<open>int\<close>, \<^verbatim>\<open>float\<close>, \<^verbatim>\<open>str\<close>, \<^verbatim>\<open>list\<close> and
  \<^verbatim>\<open>dict\<close> with \<^verbatim>\<open>str\<close> keys. A \<^verbatim>\<open>dict\<close> is an association list read with \<open>map_of\<close>
  (the first binding of a key is the dict's binding). Floats are only ever passed
  through by the code, so a float is carried as the number its 64 IEEE-754 bits
  spell and never computed on. Strings are byte strings; the one place where the code looks inside a
  string (\<^verbatim>\<open>str.title\<close>) is modelled on ASCII.
\<close>

datatype pyfloat = Bits64 nat

datatype json =
    JNull
  | JBool bool
  | JInt int
  | JFloat pyfloat
  | JStr string
  | JArr "json list"
  | JObj "(string \<times> json) list"

text \<open>
  Exceptions, by the classes the \<^verbatim>\<open>except\<close> clauses of the source tell apart. Each carries
  the text \<^verbatim>\<open>str(e)\<close> yields, except \<open>KeyError\<close>, which carries the \<^verbatim>\<open>repr\<close> of the
  missing key (that is what \<^verbatim>\<open>str\<close> of a \<^verbatim>\<open>KeyError\<close> is). \<open>Timeout\<close> stands for
  \<^verbatim>\<open>requests.exceptions.Timeout\<close> and its subclasses, \<open>ConnectionError\<close> for
  \<^verbatim>\<open>requests.exceptions.ConnectionError\<close> outside \<open>Timeout\<close>, \<open>OtherException\<close> for every
  other subclass of \<^verbatim>\<open>Exception\<close>. \<^verbatim>\<open>KeyboardInterrupt\<close> (whose text is empty) and
  \<open>OtherBaseException\<close> (\<^verbatim>\<open>SystemExit\<close>, \<^verbatim>\<open>GeneratorExit\<close>) are the classes that derive from
  \<^verbatim>\<open>BaseException\<close> but not from \<^verbatim>\<open>Exception\<close>.
\<close>

datatype pyexn =
    Timeout string
  | ConnectionError string
  | KeyError string
  | IndexError string
  | TypeError string
  | AttributeError string
  | OtherException string
  | KeyboardInterrupt
  | OtherBaseException string

fun str_exn :: "pyexn \<Rightarrow> string" where
  "str_exn (Timeout m) = m"
| "str_exn (ConnectionError m) = m"
| "str_exn (KeyError r) = r"
| "str_exn (IndexError m) = m"
| "str_exn (TypeError m) = m"
| "str_exn (AttributeError m) = m"
| "str_exn (OtherException m) = m"
| "str_exn KeyboardInterrupt = []"
| "str_exn (OtherBaseException m) = m"

text \<open>\<^verbatim>\<open>isinstance(e, Exception)\<close>: what the last \<^verbatim>\<open>except\<close> clause tests.\<close>

fun is_Exception :: "pyexn \<Rightarrow> bool" where
  "is_Exception KeyboardInterrupt = False"
| "is_Exception (OtherBaseException m) = False"
| "is_Exception e = True"

text \<open>
  What a call does besides returning: the HTTP request it sends, the parse of a
  response body, and the lines it prints.
\<close>

datatype event =
    HttpGet string "(string \<times> string) list" nat
  | ParseJson
  | Print string

fun is_Print :: "event \<Rightarrow> bool" where
  "is_Print (Print s) = True"
| "is_Print e = False"

text \<open>Sequencing of steps that may raise: the first exception ends the sequence.\<close>

definition bind_exn :: "pyexn + 'a \<Rightarrow> ('a \<Rightarrow> pyexn + 'b) \<Rightarrow> pyexn + 'b" where
  "bind_exn m f = (case m of Inl e \<Rightarrow> Inl e | Inr x \<Rightarrow> f x)"

section \<open>The interpreter operations the code uses\<close>

fun type_name :: "json \<Rightarrow> string" where
  "type_name JNull = ''NoneType''"
| "type_name (JBool b) = ''bool''"
| "type_name (JInt i) = ''int''"
| "type_name (JFloat x) = ''float''"
| "type_name (JStr s) = ''str''"
| "type_name (JArr xs) = ''list''"
| "type_name (JObj kvs) = ''dict''"

text \<open>
  \<^verbatim>\<open>repr\<close> of a string key. The keys the code subscripts with are literals of letters,
  digits and underscores, for which \<^verbatim>\<open>repr\<close> is the key between single quotes.
\<close>

definition repr_key :: "string \<Rightarrow> string" where
  "repr_key k = [CHR 0x27] @ k @ [CHR 0x27]"

text \<open>
  \<^verbatim>\<open>v[k]\<close> for a string \<open>k\<close>. Only a dict can be subscripted with a string; the texts
  of the \<^verbatim>\<open>TypeError\<close>s are CPython 3.12's.
\<close>

fun getitem :: "json \<Rightarrow> string \<Rightarrow> pyexn + json" where
  "getitem (JObj kvs) k =
     (case map_of kvs k of None \<Rightarrow> Inl (KeyError (repr_key k)) | Some v \<Rightarrow> Inr v)"
| "getitem (JArr xs) k = Inl (TypeError ''list indices must be integers or slices, not str'')"
| "getitem (JStr s) k =
     Inl (TypeError (''string indices must be integers, not '' @ repr_key ''str''))"
| "getitem v k =
     Inl (TypeError (repr_key (type_name v) @ '' object is not subscriptable''))"

text \<open>\<^verbatim>\<open>v[0]\<close>. A dict parsed from JSON has string keys only, so \<^verbatim>\<open>0\<close> is never one.\<close>

fun getitem0 :: "json \<Rightarrow> pyexn + json" where
  "getitem0 (JArr xs) =
     (case xs of [] \<Rightarrow> Inl (IndexError ''list index out of range'') | x # _ \<Rightarrow> Inr x)"
| "getitem0 (JStr s) =
     (case s of [] \<Rightarrow> Inl (IndexError ''string index out of range'') | c # _ \<Rightarrow> Inr (JStr [c]))"
| "getitem0 (JObj kvs) = Inl (KeyError ''0'')"
| "getitem0 v =
     Inl (TypeError (repr_key (type_name v) @ '' object is not subscriptable''))"

text \<open>\<^verbatim>\<open>v.get(k, d)\<close>.\<close>

fun dict_get :: "json \<Rightarrow> string \<Rightarrow> json \<Rightarrow> pyexn + json" where
  "dict_get (JObj kvs) k d = (case map_of kvs k of None \<Rightarrow> Inr d | Some v \<Rightarrow> Inr v)"
| "dict_get v k d =
     Inl (AttributeError
       (repr_key (type_name v) @ '' object has no attribute '' @ repr_key ''get''))"

text \<open>
  \<^verbatim>\<open>k in v\<close> for a string \<open>k\<close>: key membership in a dict, element membership in a list
  (a string equals only a string), substring test in a string, \<^verbatim>\<open>TypeError\<close> otherwise.
\<close>

fun contains :: "json \<Rightarrow> string \<Rightarrow> pyexn + bool" where
  "contains (JObj kvs) k = Inr (map_of kvs k \<noteq> None)"
| "contains (JArr xs) k = Inr (JStr k \<in> set xs)"
| "contains (JStr s) k = Inr (sublist k s)"
| "contains v k =
     Inl (TypeError (''argument of type '' @ repr_key (type_name v) @ '' is not iterable''))"

subsection \<open>\<^verbatim>\<open>str.title\<close> on ASCII\<close>

definition ascii_lowercase :: string where
  "ascii_lowercase = ''abcdefghijklmnopqrstuvwxyz''"

definition ascii_uppercase :: string where
  "ascii_uppercase = ''ABCDEFGHIJKLMNOPQRSTUVWXYZ''"

definition is_lower :: "char \<Rightarrow> bool" where
  "is_lower c = (c \<in> set ascii_lowercase)"

definition is_upper :: "char \<Rightarrow> bool" where
  "is_upper c = (c \<in> set ascii_uppercase)"

definition is_cased :: "char \<Rightarrow> bool" where
  "is_cased c = (is_lower c \<or> is_upper c)"

definition to_upper :: "char \<Rightarrow> char" where
  "to_upper c = (case map_of (zip ascii_lowercase ascii_uppercase) c of None \<Rightarrow> c | Some u \<Rightarrow> u)"

definition to_lower :: "char \<Rightarrow> char" where
  "to_lower c = (case map_of (zip ascii_uppercase ascii_lowercase) c of None \<Rightarrow> c | Some l \<Rightarrow> l)"


text \<open>
  CPython walks the string with one flag, \<^verbatim>\<open>previous_is_cased\<close>: a character after a cased
  one is lowercased, any other is titlecased (uppercased, on ASCII), and the flag becomes
  whether the character read is cased.
\<close>

fun title_from :: "bool \<Rightarrow> string \<Rightarrow> string" where
  "title_from previous_is_cased [] = []"
| "title_from previous_is_cased (c # cs) =
     (if previous_is_cased then to_lower c else to_upper c) # title_from (is_cased c) cs"

definition title :: "string \<Rightarrow> string" where
  "title s = title_from False s"

text \<open>\<^verbatim>\<open>v.title()\<close>: only a string has the method.\<close>

fun str_title :: "json \<Rightarrow> pyexn + string" where
  "str_title (JStr s) = Inr (title s)"
| "str_title v =
     Inl (AttributeError
       (repr_key (type_name v) @ '' object has no attribute '' @ repr_key ''title''))"

subsection \<open>\<^verbatim>\<open>str\<close> of an integer and \<^verbatim>\<open>str.join\<close>\<close>

definition digit_char :: "nat \<Rightarrow> char" where
  "digit_char d = ''0123456789'' ! d"

fun str_nat :: "nat \<Rightarrow> string" where
  "str_nat n = (if n < 10 then [digit_char n] else str_nat (n div 10) @ [digit_char (n mod 10)])"

declare str_nat.simps [simp del]

definition str_int :: "int \<Rightarrow> string" where
  "str_int i = (if i < 0 then CHR ''-'' # str_nat (nat (- i)) else str_nat (nat i))"

fun join :: "string \<Rightarrow> string list \<Rightarrow> string" where
  "join sep [] = []"
| "join sep [x] = x"
| "join sep (x # y # ys) = x @ sep @ join sep (y # ys)"

section \<open>The world outside the program\<close>

text \<open>
  A response object: its \<^verbatim>\<open>status_code\<close>, and what calling \<^verbatim>\<open>.json()\<close> on it would
  give (the parsed body, or the exception the parser raises). \<^verbatim>\<open>requests.get\<close> either
  raises or returns a response.
\<close>

record response =
  status_code :: int
  json_body :: "pyexn + json"

datatype http_outcome = Raises pyexn | Returns response

text \<open>
  The environment of a call: the network (\<^verbatim>\<open>requests.get(url, params=..., timeout=...)\<close>)
  and the platform's clock conversion
  \<^verbatim>\<open>datetime.fromtimestamp(x).strftime('%Y-%m-%d %H:%M:%S')\<close>, which depends on the local
  time zone and fails (\<open>Inl\<close> the text of a \<^verbatim>\<open>TypeError\<close>, \<^verbatim>\<open>ValueError\<close>, \<^verbatim>\<open>OverflowError\<close>
  or \<^verbatim>\<open>OSError\<close>) on a value that is no number or is out of range.
\<close>

record env =
  requests_get :: "string \<Rightarrow> (string \<times> string) list \<Rightarrow> nat \<Rightarrow> http_outcome"
  fromtimestamp_strftime :: "json \<Rightarrow> string + string"

definition timestamp_of :: "env \<Rightarrow> json \<Rightarrow> pyexn + string" where
  "timestamp_of w v =
     (case fromtimestamp_strftime w v of Inl m \<Rightarrow> Inl (OtherException m) | Inr s \<Rightarrow> Inr s)"

section \<open>The class \<^verbatim>\<open>APIIntegration\<close>\<close>

record api_integration =
  weather_api_key :: string
  weather_base_url :: string
  crypto_base_url :: string

definition init :: api_integration where
  "init = \<lparr> weather_api_key = ''demo_key'',
            weather_base_url = ''http://api.openweathermap.org/data/2.5/weather'',
            crypto_base_url = ''https://api.coingecko.com/api/v3'' \<rparr>"

text \<open>
  The three \<^verbatim>\<open>except\<close> clauses that close both fetch functions, tried in the source's
  order; the functions differ in the text of the second only. An exception that no clause
  matches leaves the function (\<open>Inl\<close>).
\<close>

fun except_clauses :: "string \<Rightarrow> event list \<Rightarrow> pyexn \<Rightarrow> event list \<times> (pyexn + 'a option)" where
  "except_clauses api_name tr (Timeout m) =
     (tr @ [Print ''Error: Request timed out. Please check your internet connection.''],
      Inr None)"
| "except_clauses api_name tr (ConnectionError m) =
     (tr @ [Print (''Error: Failed to connect to '' @ api_name
                   @ '' API. Please check your internet connection.'')],
      Inr None)"
| "except_clauses api_name tr e =
     (if is_Exception e then (tr @ [Print (''Error: '' @ str_exn e)], Inr None)
      else (tr, Inl e))"

subsection \<open>\<^verbatim>\<open>fetch_weather_data\<close>\<close>

record weather_info =
  city :: json
  country :: json
  temperature :: json
  feels_like :: json
  humidity :: json
  pressure :: json
  weather_description :: string
  wind_speed :: json
  visibility :: json
  timestamp :: string

text \<open>The dict display of lines 43 to 54: its values are evaluated top to bottom.\<close>

definition weather_info_of :: "env \<Rightarrow> json \<Rightarrow> pyexn + weather_info" where
  "weather_info_of w data =
     bind_exn (getitem data ''name'') (\<lambda>v_city.
     bind_exn (bind_exn (getitem data ''sys'') (\<lambda>s. getitem s ''country'')) (\<lambda>v_country.
     bind_exn (bind_exn (getitem data ''main'') (\<lambda>m. getitem m ''temp'')) (\<lambda>v_temp.
     bind_exn (bind_exn (getitem data ''main'') (\<lambda>m. getitem m ''feels_like'')) (\<lambda>v_feels.
     bind_exn (bind_exn (getitem data ''main'') (\<lambda>m. getitem m ''humidity'')) (\<lambda>v_hum.
     bind_exn (bind_exn (getitem data ''main'') (\<lambda>m. getitem m ''pressure'')) (\<lambda>v_pres.
     bind_exn (bind_exn (getitem data ''weather'') (\<lambda>ws.
               bind_exn (getitem0 ws) (\<lambda>w0.
               bind_exn (getitem w0 ''description'') str_title))) (\<lambda>v_desc.
     bind_exn (bind_exn (getitem data ''wind'') (\<lambda>wd. getitem wd ''speed'')) (\<lambda>v_wind.
     bind_exn (dict_get data ''visibility'' (JStr ''N/A'')) (\<lambda>v_vis.
     bind_exn (bind_exn (getitem data ''dt'') (timestamp_of w)) (\<lambda>v_ts.
     Inr \<lparr> city = v_city, country = v_country, temperature = v_temp,
           feels_like = v_feels, humidity = v_hum, pressure = v_pres,
           weather_description = v_desc, wind_speed = v_wind,
           visibility = v_vis, timestamp = v_ts \<rparr>))))))))))"

definition weather_params :: "api_integration \<Rightarrow> string \<Rightarrow> (string \<times> string) list" where
  "weather_params self city_name =
     [(''q'', city_name), (''appid'', weather_api_key self), (''units'', ''metric'')]"

text \<open>The body of the \<^verbatim>\<open>try\<close>: the events so far, and the value returned or the exception raised.\<close>

definition weather_try :: "env \<Rightarrow> api_integration \<Rightarrow> string \<Rightarrow> event list \<times> (pyexn + weather_info option)" where
  "weather_try w self city_name =
     (let params = weather_params self city_name;
          sent = [HttpGet (weather_base_url self) params 10]
      in case requests_get w (weather_base_url self) params 10 of
           Raises e \<Rightarrow> (sent, Inl e)
         | Returns response \<Rightarrow>
             if status_code response = 200 then
               (sent @ [ParseJson],
                bind_exn (json_body response) (\<lambda>data.
                bind_exn (weather_info_of w data) (\<lambda>weather_info. Inr (Some weather_info))))
             else
               (sent @ [Print (''Error: Unable to fetch weather data (Status code: ''
                               @ str_int (status_code response) @ '')'')],
                Inr None))"

definition fetch_weather_data :: "env \<Rightarrow> api_integration \<Rightarrow> string \<Rightarrow> event list \<times> (pyexn + weather_info option)" where
  "fetch_weather_data w self city_name =
     (case weather_try w self city_name of
        (tr, Inr r) \<Rightarrow> (tr, Inr r)
      | (tr, Inl e) \<Rightarrow> except_clauses ''weather'' tr e)"

subsection \<open>\<^verbatim>\<open>fetch_crypto_prices\<close>\<close>

record quote =
  price :: json
  change_24h :: json
  market_cap :: json
  volume_24h :: json

text \<open>The dict display of lines 101 to 106, for one symbol found in \<open>data\<close>.\<close>

definition quote_of :: "json \<Rightarrow> string \<Rightarrow> pyexn + quote" where
  "quote_of data symbol =
     bind_exn (bind_exn (getitem data symbol) (\<lambda>d. getitem d ''usd'')) (\<lambda>v_price.
     bind_exn (bind_exn (getitem data symbol) (\<lambda>d. dict_get d ''usd_24h_change'' (JInt 0))) (\<lambda>v_change.
     bind_exn (bind_exn (getitem data symbol) (\<lambda>d. dict_get d ''usd_market_cap'' (JStr ''N/A''))) (\<lambda>v_cap.
     bind_exn (bind_exn (getitem data symbol) (\<lambda>d. dict_get d ''usd_24h_vol'' (JStr ''N/A''))) (\<lambda>v_vol.
     Inr \<lparr> price = v_price, change_24h = v_change, market_cap = v_cap, volume_24h = v_vol \<rparr>))))"

text \<open>
  The \<^verbatim>\<open>for\<close> loop of lines 99 to 106. \<open>crypto_info\<close> is a dict, which keeps its keys in
  the order of their first insertion: assigning to a key already there replaces the value
  in place, as \<open>AList.update\<close> does.
\<close>

fun crypto_loop :: "json \<Rightarrow> string list \<Rightarrow> (string \<times> quote) list \<Rightarrow> pyexn + (string \<times> quote) list" where
  "crypto_loop data [] crypto_info = Inr crypto_info"
| "crypto_loop data (symbol # rest) crypto_info =
     bind_exn (contains data symbol) (\<lambda>found.
       if found then
         bind_exn (quote_of data symbol) (\<lambda>q.
           crypto_loop data rest (AList.update symbol q crypto_info))
       else crypto_loop data rest crypto_info)"

definition crypto_params :: "string list \<Rightarrow> (string \<times> string) list" where
  "crypto_params crypto_symbols =
     [(''ids'', join '','' crypto_symbols),
      (''vs_currencies'', ''usd''),
      (''include_24hr_change'', ''true''),
      (''include_market_cap'', ''true''),
      (''include_24hr_vol'', ''true'')]"

definition crypto_url :: "api_integration \<Rightarrow> string" where
  "crypto_url self = crypto_base_url self @ ''/simple/price''"

definition crypto_try :: "env \<Rightarrow> api_integration \<Rightarrow> string list \<Rightarrow> event list \<times> (pyexn + (string \<times> quote) list option)" where
  "crypto_try w self crypto_symbols =
     (let params = crypto_params crypto_symbols;
          url = crypto_url self;
          sent = [HttpGet url params 10]
      in case requests_get w url params 10 of
           Raises e \<Rightarrow> (sent, Inl e)
         | Returns response \<Rightarrow>
             if status_code response = 200 then
               (sent @ [ParseJson],
                bind_exn (json_body response) (\<lambda>data.
                bind_exn (crypto_loop data crypto_symbols []) (\<lambda>crypto_info.
                Inr (Some crypto_info))))
             else
               (sent @ [Print (''Error: Unable to fetch crypto data (Status code: ''
                               @ str_int (status_code response) @ '')'')],
                Inr None))"

definition fetch_crypto_prices :: "env \<Rightarrow> api_integration \<Rightarrow> string list \<Rightarrow> event list \<times> (pyexn + (string \<times> quote) list option)" where
  "fetch_crypto_prices w self crypto_symbols =
     (case crypto_try w self crypto_symbols of
        (tr, Inr r) \<Rightarrow> (tr, Inr r)
      | (tr, Inl e) \<Rightarrow> except_clauses ''crypto'' tr e)"

section \<open>Notions used to state the properties\<close>

text \<open>A step raises nothing but exceptions that satisfy \<open>P\<close>.\<close>

definition raises_only :: "(pyexn \<Rightarrow> bool) \<Rightarrow> pyexn + 'a \<Rightarrow> bool" where
  "raises_only P m = (case m of Inl e \<Rightarrow> P e | Inr x \<Rightarrow> True)"

text \<open>
  The exceptions that reading a parsed body can raise: a missing key, an index out of
  range, a value of the wrong type, a missing method, a failed clock conversion.
\<close>

fun is_data_error :: "pyexn \<Rightarrow> bool" where
  "is_data_error (KeyError r) = True"
| "is_data_error (IndexError m) = True"
| "is_data_error (TypeError m) = True"
| "is_data_error (AttributeError m) = True"
| "is_data_error (OtherException m) = True"
| "is_data_error e = False"

text \<open>The line the \<^verbatim>\<open>except\<close> clauses print for an exception they catch.\<close>

definition error_line :: "string \<Rightarrow> pyexn \<Rightarrow> string" where
  "error_line api_name e =
     (case e of
        Timeout m \<Rightarrow> ''Error: Request timed out. Please check your internet connection.''
      | ConnectionError m \<Rightarrow>
          ''Error: Failed to connect to '' @ api_name
          @ '' API. Please check your internet connection.''
      | _ \<Rightarrow> ''Error: '' @ str_exn e)"

text \<open>
  A path into a parsed body, as the specification writes it (\<^verbatim>\<open>main.humidity\<close>,
  \<^verbatim>\<open>weather[0].description\<close>), and the value found there, if the path exists.
\<close>

datatype seg = Key string | Idx nat

fun lookup_path :: "seg list \<Rightarrow> json \<Rightarrow> json option" where
  "lookup_path [] v = Some v"
| "lookup_path (Key k # p) (JObj kvs) =
     (case map_of kvs k of None \<Rightarrow> None | Some v \<Rightarrow> lookup_path p v)"
| "lookup_path (Idx i # p) (JArr xs) = (if i < length xs then lookup_path p (xs ! i) else None)"
| "lookup_path (s # p) v = None"

definition description_path :: "seg list" where
  "description_path = [Key ''weather'', Idx 0, Key ''description'']"

definition required_paths :: "seg list list" where
  "required_paths =
     [[Key ''name''], [Key ''sys'', Key ''country''], [Key ''main'', Key ''temp''],
      [Key ''main'', Key ''feels_like''], [Key ''main'', Key ''humidity''],
      [Key ''main'', Key ''pressure''], description_path, [Key ''wind'', Key ''speed''],
      [Key ''dt'']]"

text \<open>The elements of a list in the order of their first occurrence, without those \<open>seen\<close>.\<close>

fun first_occurrences :: "'a list \<Rightarrow> 'a list \<Rightarrow> 'a list" where
  "first_occurrences seen [] = []"
| "first_occurrences seen (x # xs) =
     (if x \<in> set seen then first_occurrences seen xs else x # first_occurrences (x # seen) xs)"



section \<open>Mocked worlds\<close>

text \<open>
  A world whose network gives the same outcome to every request and whose clock gives the
  same text for every instant, and the response a mocked server sends with status 200.
\<close>

definition mock_env :: "http_outcome \<Rightarrow> env" where
  "mock_env outcome =
     \<lparr> requests_get = (\<lambda>url params t. outcome),
       fromtimestamp_strftime = (\<lambda>v. Inr ''2024-01-01 00:00:00'') \<rparr>"

definition status_response :: "int \<Rightarrow> json \<Rightarrow> http_outcome" where
  "status_response code body = Returns \<lparr> status_code = code, json_body = Inr body \<rparr>"

text \<open>Bodies a mocked server sends.\<close>

definition london :: "(string \<times> json) list" where
  "london =
     [(''name'', JStr ''London''),
      (''sys'', JObj [(''country'', JStr ''GB'')]),
      (''main'', JObj [(''temp'', JInt 12), (''feels_like'', JInt 11),
                       (''humidity'', JInt 81), (''pressure'', JInt 1012)]),
      (''weather'', JArr [JObj [(''description'', JStr ''light rain'')]]),
      (''wind'', JObj [(''speed'', JInt 4)]),
      (''dt'', JInt 1704067200)]"

definition london_no_humidity :: "(string \<times> json) list" where
  "london_no_humidity =
     AList.update ''main'' (JObj [(''temp'', JInt 12), (''feels_like'', JInt 11),
                                  (''pressure'', JInt 1012)]) london"

definition bitcoin_only :: "(string \<times> json) list" where
  "bitcoin_only = [(''bitcoin'', JObj [(''usd'', JInt 50000)])]"

definition both_coins :: "(string \<times> json) list" where
  "both_coins =
     [(''bitcoin'', JObj [(''usd'', JInt 50000)]),
      (''ethereum'', JObj [(''usd'', JInt 3000), (''usd_24h_change'', JInt 2),
                           (''usd_market_cap'', JInt 360000000000)])]"

definition bitcoin_without_usd :: "(string \<times> json) list" where
  "bitcoin_without_usd =
     [(''bitcoin'', JObj [(''usd_24h_change'', JInt 1)]),
      (''ethereum'', JObj [(''usd'', JInt 3000)])]"

section \<open>Sequencing and the exceptions the projections raise\<close>

text \<open>What the mocked world answers.\<close>

lemma requests_get_mock_env: "requests_get (mock_env outcome) url params t = outcome"
  by (simp add: mock_env_def)

lemma fromtimestamp_mock_env:
  "fromtimestamp_strftime (mock_env outcome) v = Inr ''2024-01-01 00:00:00''"
  by (simp add: mock_env_def)

text \<open>Sequencing.\<close>

lemma bind_exn_Inl [simp]: "bind_exn (Inl e) f = Inl e"
  by (simp add: bind_exn_def)

lemma bind_exn_Inr [simp]: "bind_exn (Inr x) f = f x"
  by (simp add: bind_exn_def)

lemma bind_exn_eq_Inr: "bind_exn m f = Inr y \<longleftrightarrow> (\<exists>x. m = Inr x \<and> f x = Inr y)"
  by (cases m) simp_all

lemma bind_exn_eq_Inl:
  "bind_exn m f = Inl e \<longleftrightarrow> m = Inl e \<or> (\<exists>x. m = Inr x \<and> f x = Inl e)"
  by (cases m) simp_all

lemma raises_onlyD: "raises_only P m \<Longrightarrow> m = Inl e \<Longrightarrow> P e"
  by (simp add: raises_only_def)

lemma raises_only_Inr [simp]: "raises_only P (Inr x)"
  by (simp add: raises_only_def)

lemma raises_only_bind:
  "raises_only P m \<Longrightarrow> (\<And>x. raises_only P (f x)) \<Longrightarrow> raises_only P (bind_exn m f)"
  by (cases m) (simp_all add: raises_only_def)


lemma raises_only_getitem [simp]: "raises_only is_data_error (getitem v k)"
  by (cases v) (simp_all add: raises_only_def split: option.split)

lemma raises_only_getitem0 [simp]: "raises_only is_data_error (getitem0 v)"
  by (cases v) (simp_all add: raises_only_def split: list.split)

lemma raises_only_dict_get [simp]: "raises_only is_data_error (dict_get v k d)"
  by (cases v) (simp_all add: raises_only_def split: option.split)

lemma raises_only_contains [simp]: "raises_only is_data_error (contains v k)"
  by (cases v) (simp_all add: raises_only_def)

lemma raises_only_str_title [simp]: "raises_only is_data_error (str_title v)"
  by (cases v) (simp_all add: raises_only_def)

lemma raises_only_timestamp_of [simp]: "raises_only is_data_error (timestamp_of w v)"
  by (simp add: raises_only_def timestamp_of_def split: sum.split)

lemma raises_only_weather_info_of: "raises_only is_data_error (weather_info_of w data)"
  unfolding weather_info_of_def
  by (intro raises_only_bind raises_only_getitem raises_only_getitem0
        raises_only_dict_get raises_only_str_title raises_only_timestamp_of
        raises_only_Inr)

lemma raises_only_quote_of: "raises_only is_data_error (quote_of data symbol)"
  unfolding quote_of_def
  by (intro raises_only_bind raises_only_getitem raises_only_dict_get raises_only_Inr)

lemma raises_only_crypto_loop:
  "raises_only is_data_error (crypto_loop data symbols crypto_info)"
proof (induction symbols arbitrary: crypto_info)
  case Nil
  show ?case by simp
next
  case (Cons symbol rest)
  show ?case
    by (simp del: bind_exn_Inl bind_exn_Inr)
       (intro raises_only_bind raises_only_contains,
        simp add: Cons.IH raises_only_bind raises_only_quote_of)
qed

subsection \<open>What the \<^verbatim>\<open>except\<close> clauses do with an \<^verbatim>\<open>Exception\<close>\<close>

lemma except_clauses_Exception:
  "is_Exception e \<Longrightarrow>
   except_clauses api_name tr e = (tr @ [Print (error_line api_name e)], Inr None)"
  by (cases e) (simp_all add: error_line_def)

lemma except_clauses_not_Exception:
  "\<not> is_Exception e \<Longrightarrow> except_clauses api_name tr e = (tr, Inl e)"
  by (cases e) simp_all

lemma error_line_data_error: "is_data_error e \<Longrightarrow> error_line api_name e = ''Error: '' @ str_exn e"
  by (cases e) (simp_all add: error_line_def)


section \<open>The three ways out of a call\<close>

lemma fetch_weather_data_Raises:
  "requests_get w (weather_base_url self) (weather_params self city_name) 10 = Raises e \<Longrightarrow>
   fetch_weather_data w self city_name =
     except_clauses ''weather'' [HttpGet (weather_base_url self) (weather_params self city_name) 10] e"
  by (simp add: fetch_weather_data_def weather_try_def)

lemma fetch_weather_data_status:
  "requests_get w (weather_base_url self) (weather_params self city_name) 10 = Returns r \<Longrightarrow>
   status_code r \<noteq> 200 \<Longrightarrow>
   fetch_weather_data w self city_name =
     ([HttpGet (weather_base_url self) (weather_params self city_name) 10,
       Print (''Error: Unable to fetch weather data (Status code: '' @ str_int (status_code r) @ '')'')],
      Inr None)"
  by (simp add: fetch_weather_data_def weather_try_def)

lemma fetch_weather_data_200:
  "requests_get w (weather_base_url self) (weather_params self city_name) 10 = Returns r \<Longrightarrow>
   status_code r = 200 \<Longrightarrow>
   fetch_weather_data w self city_name =
     (case bind_exn (json_body r) (weather_info_of w) of
        Inl e \<Rightarrow> except_clauses ''weather''
                   [HttpGet (weather_base_url self) (weather_params self city_name) 10, ParseJson] e
      | Inr weather_info \<Rightarrow>
          ([HttpGet (weather_base_url self) (weather_params self city_name) 10, ParseJson],
           Inr (Some weather_info)))"
  by (cases "json_body r"; cases "weather_info_of w (projr (json_body r))")
     (simp_all add: fetch_weather_data_def weather_try_def)

lemma fetch_crypto_prices_Raises:
  "requests_get w (crypto_url self) (crypto_params crypto_symbols) 10 = Raises e \<Longrightarrow>
   fetch_crypto_prices w self crypto_symbols =
     except_clauses ''crypto'' [HttpGet (crypto_url self) (crypto_params crypto_symbols) 10] e"
  by (simp add: fetch_crypto_prices_def crypto_try_def)

lemma fetch_crypto_prices_status:
  "requests_get w (crypto_url self) (crypto_params crypto_symbols) 10 = Returns r \<Longrightarrow>
   status_code r \<noteq> 200 \<Longrightarrow>
   fetch_crypto_prices w self crypto_symbols =
     ([HttpGet (crypto_url self) (crypto_params crypto_symbols) 10,
       Print (''Error: Unable to fetch crypto data (Status code: '' @ str_int (status_code r) @ '')'')],
      Inr None)"
  by (simp add: fetch_crypto_prices_def crypto_try_def)

lemma fetch_crypto_prices_200:
  "requests_get w (crypto_url self) (crypto_params crypto_symbols) 10 = Returns r \<Longrightarrow>
   status_code r = 200 \<Longrightarrow>
   fetch_crypto_prices w self crypto_symbols =
     (case bind_exn (json_body r) (\<lambda>data. crypto_loop data crypto_symbols []) of
        Inl e \<Rightarrow> except_clauses ''crypto''
                   [HttpGet (crypto_url self) (crypto_params crypto_symbols) 10, ParseJson] e
      | Inr crypto_info \<Rightarrow>
          ([HttpGet (crypto_url self) (crypto_params crypto_symbols) 10, ParseJson],
           Inr (Some crypto_info)))"
  by (cases "json_body r"; cases "crypto_loop (projr (json_body r)) crypto_symbols []")
     (simp_all add: fetch_crypto_prices_def crypto_try_def)

section \<open>Transport failures and upstream status codes\<close>

text \<open>
  C1 (as amended). When \<^verbatim>\<open>requests.get\<close> raises, both functions return the one failure value
  \<^verbatim>\<open>None\<close> whatever the class of the exception; the classes differ only in the line printed:
  the timeout line for a timeout, the connection line naming the API for a connection
  failure, and \<^verbatim>\<open>Error: \<close> followed by the exception's text for any other \<^verbatim>\<open>Exception\<close>.
  No second request is sent.
\<close>

theorem transport_failure_returns_None:
  "(requests_get w (weather_base_url self) (weather_params self city_name) 10 = Raises e \<longrightarrow>
      (e = Timeout m \<longrightarrow>
         fetch_weather_data w self city_name =
           ([HttpGet (weather_base_url self) (weather_params self city_name) 10,
             Print ''Error: Request timed out. Please check your internet connection.''],
            Inr None))
    \<and> (e = ConnectionError m \<longrightarrow>
         fetch_weather_data w self city_name =
           ([HttpGet (weather_base_url self) (weather_params self city_name) 10,
             Print ''Error: Failed to connect to weather API. Please check your internet connection.''],
            Inr None))
    \<and> (e \<in> {KeyError m, IndexError m, TypeError m, AttributeError m, OtherException m} \<longrightarrow>
         fetch_weather_data w self city_name =
           ([HttpGet (weather_base_url self) (weather_params self city_name) 10,
             Print (''Error: '' @ m)],
            Inr None)))
 \<and> (requests_get w (crypto_url self) (crypto_params crypto_symbols) 10 = Raises e \<longrightarrow>
      (e = Timeout m \<longrightarrow>
         fetch_crypto_prices w self crypto_symbols =
           ([HttpGet (crypto_url self) (crypto_params crypto_symbols) 10,
             Print ''Error: Request timed out. Please check your internet connection.''],
            Inr None))
    \<and> (e = ConnectionError m \<longrightarrow>
         fetch_crypto_prices w self crypto_symbols =
           ([HttpGet (crypto_url self) (crypto_params crypto_symbols) 10,
             Print ''Error: Failed to connect to crypto API. Please check your internet connection.''],
            Inr None))
    \<and> (e \<in> {KeyError m, IndexError m, TypeError m, AttributeError m, OtherException m} \<longrightarrow>
         fetch_crypto_prices w self crypto_symbols =
           ([HttpGet (crypto_url self) (crypto_params crypto_symbols) 10,
             Print (''Error: '' @ m)],
            Inr None)))"
  by (cases e) (auto simp add: fetch_weather_data_Raises fetch_crypto_prices_Raises)

theorem transport_failure_returns_None_witness:
  "fetch_weather_data (mock_env (Raises (OtherException ''Invalid URL''))) init ''London'' =
     ([HttpGet ''http://api.openweathermap.org/data/2.5/weather''
         [(''q'', ''London''), (''appid'', ''demo_key''), (''units'', ''metric'')] 10,
       Print ''Error: Invalid URL''], Inr None)
   \<and> fetch_crypto_prices (mock_env (Raises (Timeout ''Read timed out.''))) init [''bitcoin''] =
     ([HttpGet ''https://api.coingecko.com/api/v3/simple/price''
         [(''ids'', ''bitcoin''), (''vs_currencies'', ''usd''), (''include_24hr_change'', ''true''),
          (''include_market_cap'', ''true''), (''include_24hr_vol'', ''true'')] 10,
       Print ''Error: Request timed out. Please check your internet connection.''], Inr None)"
  using transport_failure_returns_None
          [of "mock_env (Raises (OtherException ''Invalid URL''))" init "''London''"
              "OtherException ''Invalid URL''" "''Invalid URL''" "[''bitcoin'']"]
        transport_failure_returns_None
          [of "mock_env (Raises (Timeout ''Read timed out.''))" init "''London''"
              "Timeout ''Read timed out.''" "''Read timed out.''" "[''bitcoin'']"]
  by (simp add: requests_get_mock_env init_def weather_params_def crypto_url_def crypto_params_def)

text \<open>
  C1 as stated fails: a timeout, a connection failure and any other exception all come
  back to the caller as the same value.
\<close>

theorem transport_failures_not_distinguished:
  "snd (fetch_weather_data (mock_env (Raises (Timeout ''Read timed out.''))) init ''London'')
     = snd (fetch_weather_data (mock_env (Raises (ConnectionError ''Connection refused''))) init ''London'')
   \<and> snd (fetch_weather_data (mock_env (Raises (ConnectionError ''Connection refused''))) init ''London'')
     = snd (fetch_weather_data (mock_env (Raises (OtherException ''Invalid URL''))) init ''London'')
   \<and> snd (fetch_weather_data (mock_env (Raises (OtherException ''Invalid URL''))) init ''London'')
     = Inr None"
  by (simp add: fetch_weather_data_def weather_try_def requests_get_mock_env)

text \<open>
  C6 (as amended). For a response whose status code is not 200, both functions print one
  line that spells the status code and return \<^verbatim>\<open>None\<close>: the code reaches standard output, not
  the caller. The body is not parsed: no parse event occurs, and the result is the same
  whatever \<^verbatim>\<open>.json()\<close> would have given.
\<close>

theorem non_200_prints_status_and_returns_None:
  assumes "status_code r \<noteq> 200"
  shows "(requests_get w (weather_base_url self) (weather_params self city_name) 10 = Returns r \<longrightarrow>
            fetch_weather_data w self city_name =
              ([HttpGet (weather_base_url self) (weather_params self city_name) 10,
                Print (''Error: Unable to fetch weather data (Status code: ''
                       @ str_int (status_code r) @ '')'')],
               Inr None))
       \<and> (requests_get w (crypto_url self) (crypto_params crypto_symbols) 10 = Returns r \<longrightarrow>
            fetch_crypto_prices w self crypto_symbols =
              ([HttpGet (crypto_url self) (crypto_params crypto_symbols) 10,
                Print (''Error: Unable to fetch crypto data (Status code: ''
                       @ str_int (status_code r) @ '')'')],
               Inr None))"
  using assms by (simp add: fetch_weather_data_status fetch_crypto_prices_status)

theorem non_200_prints_status_and_returns_None_witness:
  "fetch_crypto_prices (mock_env (status_response 404 (JObj bitcoin_only))) init [''bitcoin''] =
     ([HttpGet ''https://api.coingecko.com/api/v3/simple/price''
         [(''ids'', ''bitcoin''), (''vs_currencies'', ''usd''), (''include_24hr_change'', ''true''),
          (''include_market_cap'', ''true''), (''include_24hr_vol'', ''true'')] 10,
       Print ''Error: Unable to fetch crypto data (Status code: 404)''], Inr None)"
  using non_200_prints_status_and_returns_None
          [of "\<lparr>status_code = 404, json_body = Inr (JObj bitcoin_only)\<rparr>"
              "mock_env (status_response 404 (JObj bitcoin_only))" init "''London''" "[''bitcoin'']"]
  by (simp add: requests_get_mock_env status_response_def init_def crypto_url_def crypto_params_def
        str_int_def str_nat.simps digit_char_def)

text \<open>
  C6 as stated fails: the value returned for status 404 is the value returned for status
  500, so it carries no status code.
\<close>

theorem status_code_not_returned:
  "snd (fetch_weather_data (mock_env (status_response 404 JNull)) init ''London'')
     = snd (fetch_weather_data (mock_env (status_response 500 JNull)) init ''London'')
   \<and> snd (fetch_weather_data (mock_env (status_response 404 JNull)) init ''London'') = Inr None"
  by (simp add: fetch_weather_data_def weather_try_def requests_get_mock_env status_response_def)


section \<open>Totality and printing\<close>

lemma snd_except_clauses:
  "snd (except_clauses api_name tr e) = (if is_Exception e then Inr None else Inl e)"
  by (cases e) simp_all

lemma prints_except_clauses:
  "is_Exception e \<Longrightarrow>
   filter is_Print (fst (except_clauses api_name tr e))
     = filter is_Print tr @ [Print (error_line api_name e)]"
  by (simp add: except_clauses_Exception)












section \<open>The weather projection\<close>

lemma getitem_eq_Inr:
  "getitem v k = Inr x \<longleftrightarrow> (\<exists>kvs. v = JObj kvs \<and> map_of kvs k = Some x)"
  by (cases v) (auto split: option.splits)

lemma getitem0_eq_Inr:
  "getitem0 v = Inr x \<longleftrightarrow>
     (\<exists>xs. v = JArr (x # xs)) \<or> (\<exists>c s. v = JStr (c # s) \<and> x = JStr [c])"
  by (cases v) (auto split: list.splits)

lemma str_title_eq_Inr: "str_title v = Inr s \<longleftrightarrow> (\<exists>raw. v = JStr raw \<and> s = title raw)"
  by (cases v) auto

lemma timestamp_of_eq_Inr:
  "timestamp_of w v = Inr s \<longleftrightarrow> fromtimestamp_strftime w v = Inr s"
  by (cases "fromtimestamp_strftime w v") (simp_all add: timestamp_of_def)

lemma lookup_path_key:
  "lookup_path [Key k] v = Some x \<longleftrightarrow> getitem v k = Inr x"
  by (cases v) (auto split: option.splits)

lemma lookup_path_key2:
  "lookup_path [Key k, Key k'] v = Some x \<longleftrightarrow> bind_exn (getitem v k) (\<lambda>u. getitem u k') = Inr x"
  by (cases v) (auto simp add: lookup_path_key bind_exn_eq_Inr getitem_eq_Inr split: option.splits)

lemma description_eq_Inr:
  "bind_exn (getitem data ''weather'') (\<lambda>ws.
     bind_exn (getitem0 ws) (\<lambda>w0. bind_exn (getitem w0 ''description'') str_title)) = Inr s
   \<longleftrightarrow> (\<exists>raw. lookup_path description_path data = Some (JStr raw) \<and> s = title raw)"
proof
  assume "bind_exn (getitem data ''weather'') (\<lambda>ws.
     bind_exn (getitem0 ws) (\<lambda>w0. bind_exn (getitem w0 ''description'') str_title)) = Inr s"
  then obtain ws w0 d where ws: "getitem data ''weather'' = Inr ws"
      and w0: "getitem0 ws = Inr w0"
      and d: "getitem w0 ''description'' = Inr d"
      and s: "str_title d = Inr s"
    by (auto simp add: bind_exn_eq_Inr)
  from d obtain fs where fs: "w0 = JObj fs" "map_of fs ''description'' = Some d"
    by (auto simp add: getitem_eq_Inr)
  from w0 fs obtain xs where xs: "ws = JArr (JObj fs # xs)"
    by (auto simp add: getitem0_eq_Inr)
  from ws obtain kvs where kvs: "data = JObj kvs" "map_of kvs ''weather'' = Some ws"
    by (auto simp add: getitem_eq_Inr)
  from s obtain raw where raw: "d = JStr raw" "s = title raw"
    by (auto simp add: str_title_eq_Inr)
  from kvs xs fs raw show "\<exists>raw. lookup_path description_path data = Some (JStr raw) \<and> s = title raw"
    by (simp add: description_path_def)
next
  assume "\<exists>raw. lookup_path description_path data = Some (JStr raw) \<and> s = title raw"
  then obtain raw where raw: "lookup_path description_path data = Some (JStr raw)" "s = title raw"
    by blast
  from raw(1) obtain kvs ws where kvs: "data = JObj kvs" "map_of kvs ''weather'' = Some ws"
      and r1: "lookup_path [Idx 0, Key ''description''] ws = Some (JStr raw)"
    by (cases data) (auto simp add: description_path_def split: option.splits)
  from r1 obtain x xs where xs: "ws = JArr (x # xs)"
      and r2: "lookup_path [Key ''description''] x = Some (JStr raw)"
    by (cases ws; cases "case ws of JArr ys \<Rightarrow> ys | _ \<Rightarrow> []") (auto split: if_splits)
  from r2 have "getitem x ''description'' = Inr (JStr raw)"
    by (simp add: lookup_path_key)
  with kvs xs raw(2)
  show "bind_exn (getitem data ''weather'') (\<lambda>ws.
     bind_exn (getitem0 ws) (\<lambda>w0. bind_exn (getitem w0 ''description'') str_title)) = Inr s"
    by simp
qed

lemma weather_info_of_Inr:
  assumes "weather_info_of w data = Inr weather_info"
  shows "lookup_path [Key ''name''] data = Some (city weather_info)"
    and "lookup_path [Key ''sys'', Key ''country''] data = Some (country weather_info)"
    and "lookup_path [Key ''main'', Key ''temp''] data = Some (temperature weather_info)"
    and "lookup_path [Key ''main'', Key ''feels_like''] data = Some (feels_like weather_info)"
    and "lookup_path [Key ''main'', Key ''humidity''] data = Some (humidity weather_info)"
    and "lookup_path [Key ''main'', Key ''pressure''] data = Some (pressure weather_info)"
    and "\<exists>raw. lookup_path description_path data = Some (JStr raw)
               \<and> weather_description weather_info = title raw"
    and "lookup_path [Key ''wind'', Key ''speed''] data = Some (wind_speed weather_info)"
    and "dict_get data ''visibility'' (JStr ''N/A'') = Inr (visibility weather_info)"
    and "\<exists>dt. lookup_path [Key ''dt''] data = Some dt
              \<and> fromtimestamp_strftime w dt = Inr (timestamp weather_info)"
proof -
  from assms obtain v_city v_country v_temp v_feels v_hum v_pres v_desc v_wind v_vis v_ts
    where 1: "getitem data ''name'' = Inr v_city"
      and 2: "bind_exn (getitem data ''sys'') (\<lambda>s. getitem s ''country'') = Inr v_country"
      and 3: "bind_exn (getitem data ''main'') (\<lambda>m. getitem m ''temp'') = Inr v_temp"
      and 4: "bind_exn (getitem data ''main'') (\<lambda>m. getitem m ''feels_like'') = Inr v_feels"
      and 5: "bind_exn (getitem data ''main'') (\<lambda>m. getitem m ''humidity'') = Inr v_hum"
      and 6: "bind_exn (getitem data ''main'') (\<lambda>m. getitem m ''pressure'') = Inr v_pres"
      and 7: "bind_exn (getitem data ''weather'') (\<lambda>ws.
                bind_exn (getitem0 ws) (\<lambda>w0.
                bind_exn (getitem w0 ''description'') str_title)) = Inr v_desc"
      and 8: "bind_exn (getitem data ''wind'') (\<lambda>wd. getitem wd ''speed'') = Inr v_wind"
      and 9: "dict_get data ''visibility'' (JStr ''N/A'') = Inr v_vis"
      and 10: "bind_exn (getitem data ''dt'') (timestamp_of w) = Inr v_ts"
      and wi: "weather_info = \<lparr> city = v_city, country = v_country, temperature = v_temp,
           feels_like = v_feels, humidity = v_hum, pressure = v_pres,
           weather_description = v_desc, wind_speed = v_wind,
           visibility = v_vis, timestamp = v_ts \<rparr>"
    unfolding weather_info_of_def bind_exn_eq_Inr [where m = "getitem data ''name''"]
      bind_exn_eq_Inr [where m = "bind_exn m' f'" for m' f']
      bind_exn_eq_Inr [where m = "dict_get a b c" for a b c]
    by (elim exE conjE) (rule that, (assumption)+, simp)
  show "lookup_path [Key ''name''] data = Some (city weather_info)"
    using 1 wi by (simp add: lookup_path_key)
  show "lookup_path [Key ''sys'', Key ''country''] data = Some (country weather_info)"
    using 2 wi by (simp add: lookup_path_key2)
  show "lookup_path [Key ''main'', Key ''temp''] data = Some (temperature weather_info)"
    using 3 wi by (simp add: lookup_path_key2)
  show "lookup_path [Key ''main'', Key ''feels_like''] data = Some (feels_like weather_info)"
    using 4 wi by (simp add: lookup_path_key2)
  show "lookup_path [Key ''main'', Key ''humidity''] data = Some (humidity weather_info)"
    using 5 wi by (simp add: lookup_path_key2)
  show "lookup_path [Key ''main'', Key ''pressure''] data = Some (pressure weather_info)"
    using 6 wi by (simp add: lookup_path_key2)
  show "\<exists>raw. lookup_path description_path data = Some (JStr raw)
               \<and> weather_description weather_info = title raw"
    using 7 wi by (simp add: description_eq_Inr)
  show "lookup_path [Key ''wind'', Key ''speed''] data = Some (wind_speed weather_info)"
    using 8 wi by (simp add: lookup_path_key2)
  show "dict_get data ''visibility'' (JStr ''N/A'') = Inr (visibility weather_info)"
    using 9 wi by simp
  show "\<exists>dt. lookup_path [Key ''dt''] data = Some dt
              \<and> fromtimestamp_strftime w dt = Inr (timestamp weather_info)"
    using 10 wi
    by (auto simp add: bind_exn_eq_Inr lookup_path_key timestamp_of_eq_Inr)
qed


lemma dict_get_JObj_absent: "map_of kvs k = None \<Longrightarrow> dict_get (JObj kvs) k d = Inr d"
  by simp

lemma required_path_present:
  assumes "weather_info_of w data = Inr weather_info" and "p \<in> set required_paths"
  shows "lookup_path p data \<noteq> None"
  using weather_info_of_Inr [OF assms(1)] assms(2)
  by (auto simp add: required_paths_def)

lemma except_clauses_data_error:
  "is_data_error e \<Longrightarrow>
   except_clauses api_name tr e = (tr @ [Print (''Error: '' @ str_exn e)], Inr None)"
  by (cases e) simp_all

text \<open>
  C2 (as amended). For every 200 weather response in which a required field is absent, the
  projection raises, the function prints the one line \<^verbatim>\<open>Error: \<close> followed by the text of the
  exception that the failing lookup raised, and returns \<^verbatim>\<open>None\<close>: the caller never receives
  a partially filled record, and no error value.
\<close>

theorem missing_required_field_returns_None:
  assumes "requests_get w (weather_base_url self) (weather_params self city_name) 10 = Returns r"
      and "status_code r = 200"
      and "json_body r = Inr data"
      and "p \<in> set required_paths"
      and "lookup_path p data = None"
  shows "\<exists>e. weather_info_of w data = Inl e \<and> is_data_error e
           \<and> fetch_weather_data w self city_name =
               ([HttpGet (weather_base_url self) (weather_params self city_name) 10, ParseJson,
                 Print (''Error: '' @ str_exn e)],
                Inr None)"
proof (cases "weather_info_of w data")
  case (Inl e)
  have "is_data_error e"
    using raises_only_weather_info_of [of w data] Inl by (simp add: raises_only_def)
  with Inl assms(1-3) show ?thesis
    by (simp add: fetch_weather_data_200 except_clauses_data_error)
next
  case (Inr weather_info)
  with assms(4,5) show ?thesis
    using required_path_present by blast
qed

theorem missing_required_field_returns_None_witness:
  "\<exists>e. weather_info_of (mock_env (status_response 200 (JObj (AList.delete ''dt'' london))))
            (JObj (AList.delete ''dt'' london)) = Inl e
       \<and> is_data_error e
       \<and> fetch_weather_data (mock_env (status_response 200 (JObj (AList.delete ''dt'' london))))
             init ''London'' =
           ([HttpGet (weather_base_url init) (weather_params init ''London'') 10, ParseJson,
             Print (''Error: '' @ str_exn e)],
            Inr None)"
  using missing_required_field_returns_None
          [of "mock_env (status_response 200 (JObj (AList.delete ''dt'' london)))" init "''London''"
              "\<lparr>status_code = 200, json_body = Inr (JObj (AList.delete ''dt'' london))\<rparr>"
              "JObj (AList.delete ''dt'' london)" "[Key ''dt'']"]
  by (simp add: requests_get_mock_env status_response_def required_paths_def london_def
        AList.delete_eq)

text \<open>
  C2 as stated fails: with \<^verbatim>\<open>main.humidity\<close> absent the caller gets \<^verbatim>\<open>None\<close>, and the only
  text produced is the printed line \<^verbatim>\<open>Error: 'humidity'\<close>, which names the last key, not the
  path.
\<close>

theorem missing_humidity_prints_quoted_key:
  "fetch_weather_data (mock_env (status_response 200 (JObj london_no_humidity))) init ''London'' =
     ([HttpGet ''http://api.openweathermap.org/data/2.5/weather''
         [(''q'', ''London''), (''appid'', ''demo_key''), (''units'', ''metric'')] 10,
       ParseJson,
       Print (''Error: '' @ [CHR 0x27] @ ''humidity'' @ [CHR 0x27])],
      Inr None)"
  by (simp add: fetch_weather_data_def weather_try_def requests_get_mock_env status_response_def
        london_no_humidity_def london_def weather_info_of_def init_def weather_params_def
        repr_key_def)


lemma fetch_weather_data_Some:
  assumes "requests_get w (weather_base_url self) (weather_params self city_name) 10 = Returns r"
      and "json_body r = Inr data"
      and "snd (fetch_weather_data w self city_name) = Inr (Some weather_info)"
  shows "weather_info_of w data = Inr weather_info"
proof (cases "status_code r = 200")
  case False
  with assms show ?thesis by (simp add: fetch_weather_data_status)
next
  case True
  with assms show ?thesis
    by (cases "weather_info_of w data")
       (simp_all add: fetch_weather_data_200 snd_except_clauses split: if_splits)
qed








section \<open>The crypto loop\<close>

lemma contains_JObj: "contains (JObj kvs) s = Inr (s \<in> fst ` set kvs)"
  by (simp add: map_of_eq_None_iff)

lemma quote_of_JObj:
  "map_of kvs symbol = Some (JObj fs) \<Longrightarrow>
   quote_of (JObj kvs) symbol =
     (case map_of fs ''usd'' of
        None \<Rightarrow> Inl (KeyError (repr_key ''usd''))
      | Some p \<Rightarrow>
          Inr \<lparr> price = p,
                change_24h = (case map_of fs ''usd_24h_change'' of None \<Rightarrow> JInt 0 | Some c \<Rightarrow> c),
                market_cap = (case map_of fs ''usd_market_cap'' of None \<Rightarrow> JStr ''N/A'' | Some c \<Rightarrow> c),
                volume_24h = (case map_of fs ''usd_24h_vol'' of None \<Rightarrow> JStr ''N/A'' | Some c \<Rightarrow> c) \<rparr>)"
  by (simp add: quote_of_def split: option.splits)

lemma first_occurrences_cong:
  "set seen = set seen' \<Longrightarrow> first_occurrences seen xs = first_occurrences seen' xs"
proof (induction xs arbitrary: seen seen')
  case Nil
  show ?case by simp
next
  case (Cons x xs)
  from Cons.prems have "set (x # seen) = set (x # seen')" by simp
  from Cons.IH [OF this] Cons.IH [OF Cons.prems] Cons.prems show ?case by simp
qed

lemma subseq_first_occurrences: "subseq (first_occurrences seen xs) xs"
  by (induction xs arbitrary: seen) auto

lemma set_first_occurrences: "set (first_occurrences seen xs) = set xs - set seen"
  by (induction xs arbitrary: seen) auto

lemma distinct_first_occurrences: "distinct (first_occurrences seen xs)"
  by (induction xs arbitrary: seen) (auto simp add: set_first_occurrences)

text \<open>The loop, when it ends normally: keys.\<close>

lemma crypto_loop_keys:
  "crypto_loop data symbols crypto_info = Inr result \<Longrightarrow>
   map fst result =
     map fst crypto_info
     @ first_occurrences (map fst crypto_info) (filter (\<lambda>s. contains data s = Inr True) symbols)"
proof (induction symbols arbitrary: crypto_info)
  case Nil
  then show ?case by simp
next
  case (Cons symbol rest)
  from Cons.prems obtain found where found: "contains data symbol = Inr found"
    by (auto simp add: bind_exn_eq_Inr)
  show ?case
  proof (cases found)
    case False
    with found Cons.prems have "crypto_loop data rest crypto_info = Inr result" by simp
    from Cons.IH [OF this] found False show ?thesis by simp
  next
    case True
    with found Cons.prems obtain q where q: "quote_of data symbol = Inr q"
        and rest: "crypto_loop data rest (AList.update symbol q crypto_info) = Inr result"
      by (auto simp add: bind_exn_eq_Inr)
    note IH = Cons.IH [OF rest]
    show ?thesis
    proof (cases "symbol \<in> set (map fst crypto_info)")
      case True
      with IH found \<open>found\<close> show ?thesis by (simp add: update_keys)
    next
      case False
      have "first_occurrences (map fst crypto_info @ [symbol]) xs
            = first_occurrences (symbol # map fst crypto_info) xs" for xs
        by (rule first_occurrences_cong) auto
      with False IH found \<open>found\<close> show ?thesis by (simp add: update_keys)
    qed
  qed
qed

text \<open>The loop, when it ends normally: values.\<close>

lemma crypto_loop_values:
  "crypto_loop data symbols crypto_info = Inr result \<Longrightarrow>
   map_of result s = Some q \<Longrightarrow>
   map_of crypto_info s = Some q \<or> quote_of data s = Inr q"
proof (induction symbols arbitrary: crypto_info)
  case Nil
  then show ?case by simp
next
  case (Cons symbol rest)
  from Cons.prems(1) obtain found where found: "contains data symbol = Inr found"
    by (auto simp add: bind_exn_eq_Inr)
  show ?case
  proof (cases found)
    case False
    with found Cons.prems have "crypto_loop data rest crypto_info = Inr result" by simp
    from Cons.IH [OF this Cons.prems(2)] show ?thesis .
  next
    case True
    with found Cons.prems obtain q' where q': "quote_of data symbol = Inr q'"
        and rest: "crypto_loop data rest (AList.update symbol q' crypto_info) = Inr result"
      by (auto simp add: bind_exn_eq_Inr)
    from Cons.IH [OF rest Cons.prems(2)] q' show ?thesis
      by (auto simp add: update_conv' split: if_splits)
  qed
qed

text \<open>The loop raises as soon as one symbol found in the body has no quote.\<close>

lemma crypto_loop_raises:
  "s \<in> set symbols \<Longrightarrow> contains data s = Inr True \<Longrightarrow> quote_of data s = Inl e0 \<Longrightarrow>
   \<exists>e. crypto_loop data symbols crypto_info = Inl e"
proof (induction symbols arbitrary: crypto_info)
  case Nil
  then show ?case by simp
next
  case (Cons symbol rest)
  show ?case
  proof (cases "symbol = s")
    case True
    with Cons.prems show ?thesis by simp
  next
    case False
    with Cons.prems have "s \<in> set rest" by simp
    note IH = Cons.IH [OF this Cons.prems(2,3)]
    show ?thesis
    proof (cases "contains data symbol")
      case (Inl e)
      then show ?thesis by simp
    next
      case (Inr found)
      show ?thesis
      proof (cases "quote_of data symbol")
        case (Inl e)
        with Inr IH show ?thesis by (cases found) simp_all
      next
        case (Inr q)
        with \<open>contains data symbol = Inr found\<close> IH show ?thesis by (cases found) simp_all
      qed
    qed
  qed
qed

text \<open>The loop ends normally when every symbol found in the body has a quote.\<close>

lemma crypto_loop_returns:
  "(\<And>s. s \<in> set symbols \<Longrightarrow> \<exists>b. contains data s = Inr b \<and> (b \<longrightarrow> (\<exists>q. quote_of data s = Inr q))) \<Longrightarrow>
   \<exists>result. crypto_loop data symbols crypto_info = Inr result"
proof (induction symbols arbitrary: crypto_info)
  case Nil
  show ?case by simp
next
  case (Cons symbol rest)
  from Cons.prems [of symbol] obtain b where b: "contains data symbol = Inr b"
      and q: "b \<longrightarrow> (\<exists>q. quote_of data symbol = Inr q)" by auto
  have IH: "\<exists>result. crypto_loop data rest ci = Inr result" for ci
    by (rule Cons.IH) (simp add: Cons.prems)
  from b q IH show ?case by (cases b) auto
qed


lemma crypto_loop_KeyError:
  assumes "\<And>s v. s \<in> set symbols \<Longrightarrow> map_of kvs s = Some v \<Longrightarrow> \<exists>fs. v = JObj fs"
  shows "crypto_loop (JObj kvs) symbols crypto_info = Inl e \<Longrightarrow> e = KeyError (repr_key ''usd'')"
  using assms
proof (induction symbols arbitrary: crypto_info)
  case Nil
  then show ?case by simp
next
  case (Cons symbol rest)
  have IH: "crypto_loop (JObj kvs) rest ci = Inl e \<Longrightarrow> e = KeyError (repr_key ''usd'')" for ci
    by (rule Cons.IH) (auto intro: Cons.prems(2))
  show ?case
  proof (cases "map_of kvs symbol")
    case None
    with Cons.prems(1) IH show ?thesis by simp
  next
    case (Some v)
    with Cons.prems(2) [of symbol v] obtain fs where fs: "v = JObj fs" by auto
    with Some Cons.prems(1) IH show ?thesis
      by (auto simp add: quote_of_JObj bind_exn_eq_Inl split: option.splits)
  qed
qed

lemma fetch_crypto_prices_Some:
  assumes "requests_get w (crypto_url self) (crypto_params crypto_symbols) 10 = Returns r"
      and "json_body r = Inr data"
      and "snd (fetch_crypto_prices w self crypto_symbols) = Inr (Some crypto_info)"
  shows "crypto_loop data crypto_symbols [] = Inr crypto_info"
proof (cases "status_code r = 200")
  case False
  with assms show ?thesis by (simp add: fetch_crypto_prices_status)
next
  case True
  with assms show ?thesis
    by (cases "crypto_loop data crypto_symbols []")
       (simp_all add: fetch_crypto_prices_200 snd_except_clauses split: if_splits)
qed

text \<open>
  C10. For every call that returns a mapping, its keys are the requested ids found in the
  response, each once, in the order of their first occurrence in the caller's list: a
  subsequence of that list. For a response that is a JSON object the keys depend on the
  response through the set of its keys only, never through their order.
\<close>

theorem result_keys_follow_request_order:
  assumes "requests_get w (crypto_url self) (crypto_params crypto_symbols) 10 = Returns r"
      and "json_body r = Inr data"
      and "snd (fetch_crypto_prices w self crypto_symbols) = Inr (Some crypto_info)"
  shows "map fst crypto_info
           = first_occurrences [] (filter (\<lambda>s. contains data s = Inr True) crypto_symbols)
       \<and> subseq (map fst crypto_info) crypto_symbols
       \<and> distinct (map fst crypto_info)
       \<and> (\<forall>kvs. data = JObj kvs \<longrightarrow>
             map fst crypto_info
               = first_occurrences [] (filter (\<lambda>s. s \<in> fst ` set kvs) crypto_symbols))"
proof -
  have "crypto_loop data crypto_symbols [] = Inr crypto_info"
    using assms by (rule fetch_crypto_prices_Some)
  from crypto_loop_keys [OF this]
  have keys: "map fst crypto_info
           = first_occurrences [] (filter (\<lambda>s. contains data s = Inr True) crypto_symbols)"
    by simp
  have "subseq (first_occurrences [] (filter (\<lambda>s. contains data s = Inr True) crypto_symbols))
          (filter (\<lambda>s. contains data s = Inr True) crypto_symbols)"
    by (rule subseq_first_occurrences)
  then have "subseq (map fst crypto_info) crypto_symbols"
    unfolding keys using subseq_filter_left subseq_order.order_trans by blast
  moreover have "distinct (map fst crypto_info)"
    unfolding keys by (rule distinct_first_occurrences)
  moreover have "\<forall>kvs. data = JObj kvs \<longrightarrow>
             map fst crypto_info
               = first_occurrences [] (filter (\<lambda>s. s \<in> fst ` set kvs) crypto_symbols)"
    unfolding keys by (simp add: contains_JObj del: contains.simps)
  ultimately show ?thesis using keys by blast
qed

theorem result_keys_follow_request_order_witness:
  "map fst [(''ethereum'', \<lparr>price = JInt 3000, change_24h = JInt 2,
                              market_cap = JInt 360000000000, volume_24h = JStr ''N/A''\<rparr>),
            (''bitcoin'', \<lparr>price = JInt 50000, change_24h = JInt 0,
                             market_cap = JStr ''N/A'', volume_24h = JStr ''N/A''\<rparr>)]
     = first_occurrences []
         (filter (\<lambda>s. contains (JObj both_coins) s = Inr True) [''ethereum'', ''solana'', ''bitcoin''])
   \<and> map fst both_coins = [''bitcoin'', ''ethereum'']
   \<and> snd (fetch_crypto_prices (mock_env (status_response 200 (JObj both_coins))) init
             [''ethereum'', ''solana'', ''bitcoin'']) =
       Inr (Some [(''ethereum'', \<lparr>price = JInt 3000, change_24h = JInt 2,
                              market_cap = JInt 360000000000, volume_24h = JStr ''N/A''\<rparr>),
            (''bitcoin'', \<lparr>price = JInt 50000, change_24h = JInt 0,
                             market_cap = JStr ''N/A'', volume_24h = JStr ''N/A''\<rparr>)])"
proof -
  let ?w = "mock_env (status_response 200 (JObj both_coins))"
  have 1: "requests_get ?w (crypto_url init) (crypto_params [''ethereum'', ''solana'', ''bitcoin'']) 10
           = Returns \<lparr>status_code = 200, json_body = Inr (JObj both_coins)\<rparr>"
    by (simp add: requests_get_mock_env status_response_def)
  have 2: "json_body \<lparr>status_code = 200, json_body = Inr (JObj both_coins)\<rparr> = Inr (JObj both_coins)"
    by simp
  have 3: "snd (fetch_crypto_prices ?w init [''ethereum'', ''solana'', ''bitcoin'']) =
       Inr (Some [(''ethereum'', \<lparr>price = JInt 3000, change_24h = JInt 2,
                              market_cap = JInt 360000000000, volume_24h = JStr ''N/A''\<rparr>),
            (''bitcoin'', \<lparr>price = JInt 50000, change_24h = JInt 0,
                             market_cap = JStr ''N/A'', volume_24h = JStr ''N/A''\<rparr>)])"
    by (simp add: fetch_crypto_prices_def crypto_try_def requests_get_mock_env
          status_response_def both_coins_def quote_of_def)
  from result_keys_follow_request_order [OF 1 2 3] 3 show ?thesis
    by (simp add: both_coins_def)
qed


text \<open>
  C3 (as amended). For every 200 crypto response in which a requested id is present as a key
  but its object lacks \<^verbatim>\<open>usd\<close>, the loop raises and the function returns \<^verbatim>\<open>None\<close> for the whole
  batch, after printing one line \<^verbatim>\<open>Error: \<close> with the text of the exception; when every
  requested id present in the response maps to an object, that exception is the
  \<^verbatim>\<open>KeyError\<close> of \<^verbatim>\<open>usd\<close>. No quote is returned for any id.
\<close>

theorem missing_usd_fails_whole_batch:
  assumes "requests_get w (crypto_url self) (crypto_params crypto_symbols) 10 = Returns r"
      and "status_code r = 200"
      and "json_body r = Inr (JObj kvs)"
      and "s \<in> set crypto_symbols"
      and "map_of kvs s = Some (JObj fs)"
      and "map_of fs ''usd'' = None"
  shows "\<exists>e. crypto_loop (JObj kvs) crypto_symbols [] = Inl e \<and> is_data_error e
           \<and> fetch_crypto_prices w self crypto_symbols =
               ([HttpGet (crypto_url self) (crypto_params crypto_symbols) 10, ParseJson,
                 Print (''Error: '' @ str_exn e)],
                Inr None)
           \<and> ((\<forall>s' \<in> set crypto_symbols. \<forall>v. map_of kvs s' = Some v \<longrightarrow> (\<exists>fs'. v = JObj fs'))
                \<longrightarrow> e = KeyError (repr_key ''usd''))"
proof -
  have "contains (JObj kvs) s = Inr True"
    using assms(5) by simp
  moreover have "quote_of (JObj kvs) s = Inl (KeyError (repr_key ''usd''))"
    using assms(5,6) by (simp add: quote_of_JObj)
  ultimately obtain e where e: "crypto_loop (JObj kvs) crypto_symbols [] = Inl e"
    using crypto_loop_raises [OF assms(4)] by blast
  have d: "is_data_error e"
    using raises_only_crypto_loop [of "JObj kvs" crypto_symbols "[]"] e
    by (simp add: raises_only_def)
  have "fetch_crypto_prices w self crypto_symbols =
               ([HttpGet (crypto_url self) (crypto_params crypto_symbols) 10, ParseJson,
                 Print (''Error: '' @ str_exn e)],
                Inr None)"
    using assms(1-3) e d by (simp add: fetch_crypto_prices_200 except_clauses_data_error)
  moreover have "(\<forall>s' \<in> set crypto_symbols. \<forall>v. map_of kvs s' = Some v \<longrightarrow> (\<exists>fs'. v = JObj fs'))
                \<longrightarrow> e = KeyError (repr_key ''usd'')"
    using crypto_loop_KeyError [OF _ e] by blast
  ultimately show ?thesis using e d by blast
qed

theorem missing_usd_fails_whole_batch_witness:
  "fetch_crypto_prices (mock_env (status_response 200 (JObj [(''bitcoin'', JObj [])]))) init
     [''bitcoin''] =
     ([HttpGet (crypto_url init) (crypto_params [''bitcoin'']) 10, ParseJson,
       Print (''Error: '' @ repr_key ''usd'')],
      Inr None)"
  using missing_usd_fails_whole_batch
          [of "mock_env (status_response 200 (JObj [(''bitcoin'', JObj [])]))" init "[''bitcoin'']"
              "\<lparr>status_code = 200, json_body = Inr (JObj [(''bitcoin'', JObj [])])\<rparr>"
              "[(''bitcoin'', JObj [])]" "''bitcoin''" "[]"]
  by (auto simp add: requests_get_mock_env status_response_def)

text \<open>
  C3 as stated fails: \<^verbatim>\<open>bitcoin\<close> is present without \<^verbatim>\<open>usd\<close>, and the quote of \<^verbatim>\<open>ethereum\<close>,
  which the response holds in full, is not returned.
\<close>

theorem ethereum_quote_lost_with_bitcoin_usd:
  "fetch_crypto_prices (mock_env (status_response 200 (JObj bitcoin_without_usd))) init
     [''bitcoin'', ''ethereum''] =
     ([HttpGet ''https://api.coingecko.com/api/v3/simple/price''
         [(''ids'', ''bitcoin,ethereum''), (''vs_currencies'', ''usd''),
          (''include_24hr_change'', ''true''), (''include_market_cap'', ''true''),
          (''include_24hr_vol'', ''true'')] 10,
       ParseJson,
       Print (''Error: '' @ [CHR 0x27] @ ''usd'' @ [CHR 0x27])],
      Inr None)"
  by (simp add: fetch_crypto_prices_def crypto_try_def requests_get_mock_env status_response_def
        bitcoin_without_usd_def quote_of_def init_def crypto_url_def crypto_params_def
        repr_key_def)

text \<open>
  C5 (as amended). For every 200 crypto response that is a JSON object in which each
  requested id present as a key maps to an object with a \<^verbatim>\<open>usd\<close> field, the function returns
  a mapping whose keys are exactly the requested ids present as keys in the response (an
  absent id is left out: no error, no placeholder); each quote carries the \<^verbatim>\<open>usd\<close> value as
  its price, and its \<^verbatim>\<open>change_24h\<close> is the \<^verbatim>\<open>usd_24h_change\<close> value, or 0 when that field is
  absent.
\<close>

theorem quotes_for_requested_ids_present:
  assumes "requests_get w (crypto_url self) (crypto_params crypto_symbols) 10 = Returns r"
      and "status_code r = 200"
      and "json_body r = Inr (JObj kvs)"
      and "\<forall>s \<in> set crypto_symbols. \<forall>v. map_of kvs s = Some v \<longrightarrow>
             (\<exists>fs p. v = JObj fs \<and> map_of fs ''usd'' = Some p)"
  shows "\<exists>crypto_info.
           fetch_crypto_prices w self crypto_symbols =
             ([HttpGet (crypto_url self) (crypto_params crypto_symbols) 10, ParseJson],
              Inr (Some crypto_info))
         \<and> distinct (map fst crypto_info)
         \<and> fst ` set crypto_info = set crypto_symbols \<inter> fst ` set kvs
         \<and> (\<forall>s q fs. map_of crypto_info s = Some q \<and> map_of kvs s = Some (JObj fs) \<longrightarrow>
                map_of fs ''usd'' = Some (price q)
              \<and> (map_of fs ''usd_24h_change'' = None \<longrightarrow> change_24h q = JInt 0)
              \<and> (\<forall>c. map_of fs ''usd_24h_change'' = Some c \<longrightarrow> change_24h q = c))"
proof -
  have "\<exists>b. contains (JObj kvs) s = Inr b \<and> (b \<longrightarrow> (\<exists>q. quote_of (JObj kvs) s = Inr q))"
    if "s \<in> set crypto_symbols" for s
  proof (cases "map_of kvs s")
    case None
    then show ?thesis by (intro exI [of _ False]) simp
  next
    case (Some v)
    with assms(4) that obtain fs p where "v = JObj fs" "map_of fs ''usd'' = Some p" by blast
    with Some show ?thesis by (intro exI [of _ True]) (simp add: quote_of_JObj)
  qed
  then obtain crypto_info where loop: "crypto_loop (JObj kvs) crypto_symbols [] = Inr crypto_info"
    using crypto_loop_returns [of crypto_symbols "JObj kvs" "[]"] by blast
  have keys: "map fst crypto_info
           = first_occurrences [] (filter (\<lambda>s. s \<in> fst ` set kvs) crypto_symbols)"
    using crypto_loop_keys [OF loop] by (simp add: contains_JObj del: contains.simps)
  have "fetch_crypto_prices w self crypto_symbols =
             ([HttpGet (crypto_url self) (crypto_params crypto_symbols) 10, ParseJson],
              Inr (Some crypto_info))"
    using assms(1-3) loop by (simp add: fetch_crypto_prices_200)
  moreover have "distinct (map fst crypto_info)"
    unfolding keys by (rule distinct_first_occurrences)
  moreover have "fst ` set crypto_info = set crypto_symbols \<inter> fst ` set kvs"
  proof -
    have "fst ` set crypto_info = set (map fst crypto_info)" by simp
    also have "\<dots> = set crypto_symbols \<inter> fst ` set kvs"
      unfolding keys by (auto simp add: set_first_occurrences)
    finally show ?thesis .
  qed
  moreover have "\<forall>s q fs. map_of crypto_info s = Some q \<and> map_of kvs s = Some (JObj fs) \<longrightarrow>
                map_of fs ''usd'' = Some (price q)
              \<and> (map_of fs ''usd_24h_change'' = None \<longrightarrow> change_24h q = JInt 0)
              \<and> (\<forall>c. map_of fs ''usd_24h_change'' = Some c \<longrightarrow> change_24h q = c)"
  proof (intro allI impI)
    fix s q fs
    assume a: "map_of crypto_info s = Some q \<and> map_of kvs s = Some (JObj fs)"
    with crypto_loop_values [OF loop, of s q] have "quote_of (JObj kvs) s = Inr q" by simp
    with a show "map_of fs ''usd'' = Some (price q)
              \<and> (map_of fs ''usd_24h_change'' = None \<longrightarrow> change_24h q = JInt 0)
              \<and> (\<forall>c. map_of fs ''usd_24h_change'' = Some c \<longrightarrow> change_24h q = c)"
      by (auto simp add: quote_of_JObj split: option.splits)
  qed
  ultimately show ?thesis by blast
qed

theorem quotes_for_requested_ids_present_witness:
  "fetch_crypto_prices (mock_env (status_response 200 (JObj bitcoin_only))) init
     [''bitcoin'', ''ethereum''] =
     ([HttpGet (crypto_url init) (crypto_params [''bitcoin'', ''ethereum'']) 10, ParseJson],
      Inr (Some [(''bitcoin'', \<lparr>price = JInt 50000, change_24h = JInt 0,
                                 market_cap = JStr ''N/A'', volume_24h = JStr ''N/A''\<rparr>)]))"
proof -
  let ?w = "mock_env (status_response 200 (JObj bitcoin_only))"
  let ?r = "\<lparr>status_code = 200, json_body = Inr (JObj bitcoin_only)\<rparr>"
  have 1: "requests_get ?w (crypto_url init) (crypto_params [''bitcoin'', ''ethereum'']) 10 = Returns ?r"
    by (simp add: requests_get_mock_env status_response_def)
  have 2: "status_code ?r = 200" by simp
  have 3: "json_body ?r = Inr (JObj bitcoin_only)" by simp
  have 4: "\<forall>s \<in> set [''bitcoin'', ''ethereum'']. \<forall>v. map_of bitcoin_only s = Some v \<longrightarrow>
             (\<exists>fs p. v = JObj fs \<and> map_of fs ''usd'' = Some p)"
    by (simp add: bitcoin_only_def)
  from quotes_for_requested_ids_present [OF 1 2 3 4]
  obtain crypto_info where
    "fetch_crypto_prices ?w init [''bitcoin'', ''ethereum''] =
       ([HttpGet (crypto_url init) (crypto_params [''bitcoin'', ''ethereum'']) 10, ParseJson],
        Inr (Some crypto_info))"
    by blast
  moreover have "snd (fetch_crypto_prices ?w init [''bitcoin'', ''ethereum'']) =
      Inr (Some [(''bitcoin'', \<lparr>price = JInt 50000, change_24h = JInt 0,
                                 market_cap = JStr ''N/A'', volume_24h = JStr ''N/A''\<rparr>)])"
    by (simp add: fetch_crypto_prices_def crypto_try_def requests_get_mock_env
          status_response_def bitcoin_only_def quote_of_def)
  ultimately show ?thesis by simp
qed

text \<open>
  C5 as stated fails: \<^verbatim>\<open>bitcoin\<close> is requested and present as a key of the 200 response, and
  the call yields no quote for it but \<^verbatim>\<open>None\<close>.
\<close>

theorem present_id_without_usd_yields_no_quote:
  "snd (fetch_crypto_prices (mock_env (status_response 200 (JObj [(''bitcoin'', JObj [])]))) init
          [''bitcoin'']) = Inr None
   \<and> ''bitcoin'' \<in> fst ` set [(''bitcoin'', JObj [])]"
  by (simp add: fetch_crypto_prices_def crypto_try_def requests_get_mock_env status_response_def
        quote_of_def)

text \<open>
  C4 (as amended). Whenever an optional field is absent from a 200 response from which a
  record is returned, the record's field is the string \<^verbatim>\<open>N/A\<close>: \<^verbatim>\<open>visibility\<close> of the weather
  reading, and \<^verbatim>\<open>market_cap\<close> and \<^verbatim>\<open>volume_24h\<close> of a quote when \<^verbatim>\<open>usd_market_cap\<close> and
  \<^verbatim>\<open>usd_24h_vol\<close> are absent.
\<close>

theorem absent_optional_fields_default_to_NA:
  "(requests_get w (weather_base_url self) (weather_params self city_name) 10 = Returns r
      \<and> json_body r = Inr (JObj kvs)
      \<and> snd (fetch_weather_data w self city_name) = Inr (Some weather_info)
      \<and> map_of kvs ''visibility'' = None
    \<longrightarrow> visibility weather_info = JStr ''N/A'')
 \<and> (requests_get w (crypto_url self) (crypto_params crypto_symbols) 10 = Returns r'
      \<and> json_body r' = Inr (JObj kvs')
      \<and> snd (fetch_crypto_prices w self crypto_symbols) = Inr (Some crypto_info)
      \<and> map_of crypto_info s = Some q
      \<and> map_of kvs' s = Some (JObj fs)
    \<longrightarrow> (map_of fs ''usd_market_cap'' = None \<longrightarrow> market_cap q = JStr ''N/A'')
      \<and> (map_of fs ''usd_24h_vol'' = None \<longrightarrow> volume_24h q = JStr ''N/A''))"
proof (intro conjI impI; (elim conjE)?)
  assume a: "requests_get w (weather_base_url self) (weather_params self city_name) 10 = Returns r"
    "json_body r = Inr (JObj kvs)"
    "snd (fetch_weather_data w self city_name) = Inr (Some weather_info)"
    and v: "map_of kvs ''visibility'' = None"
  have "weather_info_of w (JObj kvs) = Inr weather_info"
    using a by (rule fetch_weather_data_Some)
  from weather_info_of_Inr(9) [OF this] v show "visibility weather_info = JStr ''N/A''"
    by simp
next
  assume a: "requests_get w (crypto_url self) (crypto_params crypto_symbols) 10 = Returns r'"
    "json_body r' = Inr (JObj kvs')"
    "snd (fetch_crypto_prices w self crypto_symbols) = Inr (Some crypto_info)"
    and q: "map_of crypto_info s = Some q" "map_of kvs' s = Some (JObj fs)"
  have "crypto_loop (JObj kvs') crypto_symbols [] = Inr crypto_info"
    using a by (rule fetch_crypto_prices_Some)
  from crypto_loop_values [OF this q(1)] have qo: "quote_of (JObj kvs') s = Inr q" by simp
  { assume "map_of fs ''usd_market_cap'' = None"
    with qo q(2) show "market_cap q = JStr ''N/A''"
      by (auto simp add: quote_of_JObj split: option.splits) }
  { assume "map_of fs ''usd_24h_vol'' = None"
    with qo q(2) show "volume_24h q = JStr ''N/A''"
      by (auto simp add: quote_of_JObj split: option.splits) }
qed

theorem absent_optional_fields_default_to_NA_witness:
  "snd (fetch_weather_data (mock_env (status_response 200 (JObj london))) init ''London'') =
     Inr (Some \<lparr> city = JStr ''London'', country = JStr ''GB'', temperature = JInt 12,
       feels_like = JInt 11, humidity = JInt 81, pressure = JInt 1012,
       weather_description = ''Light Rain'', wind_speed = JInt 4,
       visibility = JStr ''N/A'', timestamp = ''2024-01-01 00:00:00'' \<rparr>)
   \<and> map_of london ''visibility'' = None
   \<and> snd (fetch_crypto_prices (mock_env (status_response 200 (JObj bitcoin_only))) init
            [''bitcoin'']) =
     Inr (Some [(''bitcoin'', \<lparr>price = JInt 50000, change_24h = JInt 0,
                                market_cap = JStr ''N/A'', volume_24h = JStr ''N/A''\<rparr>)])
   \<and> map_of [(''usd'', JInt 50000)] ''usd_market_cap'' = None
   \<and> map_of [(''usd'', JInt 50000)] ''usd_24h_vol'' = None"
proof -
  let ?w = "mock_env (status_response 200 (JObj london))"
  let ?wi = "\<lparr> city = JStr ''London'', country = JStr ''GB'', temperature = JInt 12,
       feels_like = JInt 11, humidity = JInt 81, pressure = JInt 1012,
       weather_description = ''Light Rain'', wind_speed = JInt 4,
       visibility = JStr ''N/A'', timestamp = ''2024-01-01 00:00:00'' \<rparr>"
  let ?c = "mock_env (status_response 200 (JObj bitcoin_only))"
  let ?q = "\<lparr>price = JInt 50000, change_24h = JInt 0,
            market_cap = JStr ''N/A'', volume_24h = JStr ''N/A''\<rparr>"
  have 1: "requests_get ?w (weather_base_url init) (weather_params init ''London'') 10
           = Returns \<lparr>status_code = 200, json_body = Inr (JObj london)\<rparr>"
    by (simp add: requests_get_mock_env status_response_def)
  have 3: "snd (fetch_weather_data ?w init ''London'') = Inr (Some ?wi)"
    by (simp add: fetch_weather_data_def weather_try_def requests_get_mock_env
          fromtimestamp_mock_env status_response_def london_def weather_info_of_def
          timestamp_of_def title_def to_upper_def to_lower_def is_cased_def is_lower_def
          is_upper_def ascii_lowercase_def ascii_uppercase_def)
  have 4: "map_of london ''visibility'' = None"
    by (simp add: london_def)
  have 5: "requests_get ?c (crypto_url init) (crypto_params [''bitcoin'']) 10
           = Returns \<lparr>status_code = 200, json_body = Inr (JObj bitcoin_only)\<rparr>"
    by (simp add: requests_get_mock_env status_response_def)
  have 6: "snd (fetch_crypto_prices ?c init [''bitcoin'']) = Inr (Some [(''bitcoin'', ?q)])"
    by (simp add: fetch_crypto_prices_def crypto_try_def requests_get_mock_env
          status_response_def bitcoin_only_def quote_of_def)
  have 7: "map_of bitcoin_only ''bitcoin'' = Some (JObj [(''usd'', JInt 50000)])"
    by (simp add: bitcoin_only_def)
  have "visibility ?wi = JStr ''N/A''"
    using absent_optional_fields_default_to_NA
         [of ?w init "''London''" "\<lparr>status_code = 200, json_body = Inr (JObj london)\<rparr>"
             london ?wi] 1 3 4
    by simp
  moreover have "market_cap ?q = JStr ''N/A'' \<and> volume_24h ?q = JStr ''N/A''"
    using absent_optional_fields_default_to_NA
         [of ?c init _ _ _ _ "[''bitcoin'']"
             "\<lparr>status_code = 200, json_body = Inr (JObj bitcoin_only)\<rparr>"
             bitcoin_only "[(''bitcoin'', ?q)]" "''bitcoin''" ?q "[(''usd'', JInt 50000)]"] 5 6 7
    by simp
  ultimately show ?thesis using 3 4 6 by simp
qed

text \<open>
  C4 as stated fails: with \<^verbatim>\<open>visibility\<close> absent the field is the string \<^verbatim>\<open>N/A\<close>, which is
  not the string \<^verbatim>\<open>unavailable\<close>.
\<close>

theorem visibility_sentinel_is_not_unavailable:
  "snd (fetch_weather_data (mock_env (status_response 200 (JObj london))) init ''London'') =
     Inr (Some \<lparr> city = JStr ''London'', country = JStr ''GB'', temperature = JInt 12,
       feels_like = JInt 11, humidity = JInt 81, pressure = JInt 1012,
       weather_description = ''Light Rain'', wind_speed = JInt 4,
       visibility = JStr ''N/A'', timestamp = ''2024-01-01 00:00:00'' \<rparr>)
   \<and> JStr ''N/A'' \<noteq> JStr ''unavailable''"
  by (simp add: fetch_weather_data_def weather_try_def requests_get_mock_env
        fromtimestamp_mock_env status_response_def london_def weather_info_of_def
        timestamp_of_def title_def to_upper_def to_lower_def is_cased_def is_lower_def
        is_upper_def ascii_lowercase_def ascii_uppercase_def)


end
